theory Spec2Isabelle
  imports Main "HOL-Library.Word"
begin

section \<open>Go values shared by both packages\<close>

text \<open>
  A Go \<open>error\<close> is an interface value; \<open>nil\<close> is \<open>None\<close> of \<open>error option\<close>.
  Two ways of making one occur in the sources: \<open>fmt.Errorf(format)\<close> with no operands,
  kept symbolically as \<open>Errorf format\<close> (the text of that error is the format string
  after \<open>fmt\<close> has interpreted its verbs), and errors handed back by the libraries
  (\<open>net/http\<close>, \<open>encoding/json\<close>, the MQTT client), kept as \<open>LibError\<close>.
\<close>

datatype error = Errorf string | LibError string

text \<open>
  What running a piece of Go code leads to: it returns, it blocks on a channel
  operation that cannot proceed, it panics, or it ends the process (\<open>log.Fatal\<close>).
\<close>

datatype 'a outcome = Returns 'a | Blocks | Panics string | Exits string

fun bind_outcome :: "'a outcome \<Rightarrow> ('a \<Rightarrow> 'b outcome) \<Rightarrow> 'b outcome" where
  "bind_outcome (Returns x) f = f x"
| "bind_outcome Blocks f = Blocks"
| "bind_outcome (Panics m) f = Panics m"
| "bind_outcome (Exits m) f = Exits m"

section \<open>Package rest: the types of the REST interface\<close>

text \<open>
  \<open>NodeDescriptor\<close>, \<open>PubSub\<close> and the owner type are declared in a file of package
  \<open>rest\<close> that is not among the sources; they are given here with the fields the
  functions below read and write.
\<close>

record PubSub =
  Topic :: string

record Owner =
  Id :: string

record ServiceConfigParameter =
  key_name :: string
  key_description :: string
  key_example :: string
  key_required :: bool

text \<open>
  A Go map and a Go slice can be \<open>nil\<close>: \<open>None\<close> is the nil map (nil slice),
  \<open>Some\<close> a map (slice) that has been made.
\<close>

type_synonym go_map = "(string \<rightharpoonup> string) option"

record NodeDescriptor =
  Name :: string
  ID :: string
  Pubsub :: PubSub
  Owner :: Owner

record ServiceNode = NodeDescriptor +
  Description :: string
  Properties :: go_map
  ConfigParameters :: "ServiceConfigParameter list option"

record ServiceCreateRequest =
  req_Name :: string
  req_Description :: string
  req_Properties :: go_map
  req_ConfigParameters :: "ServiceConfigParameter list option"

record KeyValuePair =
  Key :: string
  Value :: string

record ServiceDeviceListItem =
  item_Id :: string
  Config :: "KeyValuePair list option"

text \<open>The anonymous struct \<open>hackServiceNode\<close> of \<open>ServiceCreate\<close>.\<close>

record hackServiceNode =
  hack_OwnerID :: string
  hack_Name :: string
  hack_ID :: string
  hack_Pubsub :: PubSub
  hack_Description :: string
  hack_Properties :: go_map
  hack_ConfigParameters :: "ServiceConfigParameter list option"

text \<open>Zero values, as \<open>var x T\<close> gives them.\<close>

definition zero_ServiceNode :: ServiceNode where
  "zero_ServiceNode =
     \<lparr>Name = [], ID = [], Pubsub = \<lparr>Topic = []\<rparr>, Owner = \<lparr>Id = []\<rparr>,
      Description = [], Properties = None, ConfigParameters = None\<rparr>"

definition zero_hackServiceNode :: hackServiceNode where
  "zero_hackServiceNode =
     \<lparr>hack_OwnerID = [], hack_Name = [], hack_ID = [], hack_Pubsub = \<lparr>Topic = []\<rparr>,
      hack_Description = [], hack_Properties = None, hack_ConfigParameters = None\<rparr>"

section \<open>Package framework: channels\<close>

text \<open>
  A buffered Go channel: the values waiting in its buffer, its capacity, and whether
  it has been closed. Channels live in a heap (a list indexed by address), since the
  service and its caller hold references to the same channel; a reference is
  \<open>None\<close> for the nil channel.
\<close>

record 'a chan =
  buf :: "'a list"
  cap :: nat
  closed :: bool

type_synonym chan_ref = "nat option"

definition make_chan :: "nat \<Rightarrow> 'a chan" where
  "make_chan n = \<lparr>buf = [], cap = n, closed = False\<rparr>"

text \<open>
  \<open>close(c)\<close>: closing the nil channel panics, closing a closed channel panics.
\<close>

definition close_chan :: "'a chan list \<Rightarrow> chan_ref \<Rightarrow> ('a chan list) outcome" where
  "close_chan h r =
     (case r of
        None \<Rightarrow> Panics ''close of nil channel''
      | Some a \<Rightarrow>
          if closed (h ! a) then Panics ''close of closed channel''
          else Returns (h[a := (h ! a)\<lparr>closed := True\<rparr>]))"

text \<open>
  \<open>c <- v\<close>: a send on the nil channel blocks forever, a send on a closed channel
  panics, a send on a full channel blocks until a receiver makes room.
\<close>

definition send_chan :: "'a chan list \<Rightarrow> chan_ref \<Rightarrow> 'a \<Rightarrow> ('a chan list) outcome" where
  "send_chan h r v =
     (case r of
        None \<Rightarrow> Blocks
      | Some a \<Rightarrow>
          if closed (h ! a) then Panics ''send on closed channel''
          else if cap (h ! a) \<le> length (buf (h ! a)) then Blocks
          else Returns (h[a := (h ! a)\<lparr>buf := buf (h ! a) @ [v]\<rparr>]))"

text \<open>
  \<open>v, ok := <-c\<close>: a buffered value is delivered first, also after the close; on an
  empty buffer the receive reports closed (\<open>None\<close>, Go's \<open>ok = false\<close>) when the
  channel is closed and blocks otherwise. A receive on the nil channel blocks.
\<close>

definition recv_chan :: "'a chan list \<Rightarrow> chan_ref \<Rightarrow> ('a option \<times> 'a chan list) outcome" where
  "recv_chan h r =
     (case r of
        None \<Rightarrow> Blocks
      | Some a \<Rightarrow>
          (case buf (h ! a) of
             v # vs \<Rightarrow> Returns (Some v, h[a := (h ! a)\<lparr>buf := vs\<rparr>])
           | [] \<Rightarrow> if closed (h ! a) then Returns (None, h) else Blocks))"

section \<open>Package framework: the service\<close>

definition deviceUpdatesBuffering :: nat where
  "deviceUpdatesBuffering = 10"

definition mqttPersistence :: bool where
  "mqttPersistence = False"

definition DeviceUpdateTypeAdd :: int where
  "DeviceUpdateTypeAdd = 0"

definition DeviceUpdateTypeRem :: int where
  "DeviceUpdateTypeRem = 1"

definition DeviceUpdateTypeUpd :: int where
  "DeviceUpdateTypeUpd = 2"

text \<open>
  \<open>ServiceDeviceUpdate\<close> and \<open>ServiceUpdatesEncapsulation\<close> are declared in a file
  that is not among the sources. The device-update record is the type parameter
  \<open>'u\<close>; of the envelope only the field \<open>Thing\<close> is used.
\<close>

record 'u ServiceUpdatesEncapsulation =
  Thing :: 'u

record 'u DeviceUpdate =
  Type :: int
  ServiceDeviceUpdate :: 'u

text \<open>
  The three function literals that \<open>StartDeviceUpdates\<close> passes to \<open>Subscribe\<close>.
\<close>

datatype handler = CallbackAdd | CallbackRem | CallbackUpd

text \<open>The calls the MQTT client receives, in the order they are made.\<close>

datatype mqtt_call =
    CallSubscribe string "8 word"
  | CallUnsubscribe string
  | CallPublish string "8 word" bool string

text \<open>
  The service together with what its methods act on: the fields \<open>node\<close> and
  \<open>updates\<close> of \<open>Service\<close>, the package variable \<open>mqttQos\<close>, the channel heap, what
  the logger has printed, and the MQTT client behind \<open>s.mqtt\<close> (the topics it holds a
  callback for, and the calls made to it).
\<close>

record 'u state =
  node :: ServiceNode
  updates :: chan_ref
  mqttQos :: "64 word"
  chans :: "'u DeviceUpdate chan list"
  logged :: "string list"
  routes :: "string \<rightharpoonup> handler"
  calls :: "mqtt_call list"

text \<open>
  The libraries the service calls. The broker's answer to a request (the error of
  the token, \<open>None\<close> for success) may depend on the topic and on every call made
  before; \<open>json_Unmarshal\<close> is \<open>json.Unmarshal\<close> into a fresh envelope.
\<close>

record 'u env =
  subscribe_reply :: "mqtt_call list \<Rightarrow> string \<Rightarrow> error option"
  unsubscribe_reply :: "mqtt_call list \<Rightarrow> string \<Rightarrow> error option"
  publish_reply :: "mqtt_call list \<Rightarrow> string \<Rightarrow> error option"
  json_Unmarshal :: "string \<Rightarrow> error + 'u ServiceUpdatesEncapsulation"

text \<open>
  \<open>Subscribe\<close>: the client is asked to subscribe with \<open>byte(mqttQos)\<close>; when the
  broker accepts, the client holds the callback for the topic.
\<close>

definition Subscribe ::
  "'u env \<Rightarrow> 'u state \<Rightarrow> string \<Rightarrow> handler \<Rightarrow> error option \<times> 'u state" where
  "Subscribe e s topic callback =
     (let err = subscribe_reply e (calls s) topic;
          s' = s\<lparr>calls := calls s @ [CallSubscribe topic (ucast (mqttQos s))]\<rparr>
      in (err, if err = None then s'\<lparr>routes := (routes s')(topic \<mapsto> callback)\<rparr> else s'))"

text \<open>
  \<open>Unsubscribe\<close>: when the broker accepts, the client drops the topic's callback.
\<close>

definition Unsubscribe :: "'u env \<Rightarrow> 'u state \<Rightarrow> string \<Rightarrow> error option \<times> 'u state" where
  "Unsubscribe e s topic =
     (let err = unsubscribe_reply e (calls s) topic;
          s' = s\<lparr>calls := calls s @ [CallUnsubscribe topic]\<rparr>
      in (err, if err = None then s'\<lparr>routes := (routes s')(topic := None)\<rparr> else s'))"

definition Publish ::
  "'u env \<Rightarrow> 'u state \<Rightarrow> string \<Rightarrow> string \<Rightarrow> error option \<times> 'u state" where
  "Publish e s topic payload =
     (let err = publish_reply e (calls s) topic
      in (err, s\<lparr>calls := calls s @
                  [CallPublish topic (ucast (mqttQos s)) mqttPersistence payload]\<rparr>))"

definition GetProperty :: "'u state \<Rightarrow> string \<Rightarrow> string" where
  "GetProperty s key =
     (case Properties (node s) of
        None \<Rightarrow> []
      | Some m \<Rightarrow> (case m key of Some v \<Rightarrow> v | None \<Rightarrow> []))"

text \<open>
  The body shared by the three callbacks up to the constant they tag with: decode
  the payload; on failure print and return; otherwise send the tagged update on
  \<open>s.updates\<close>, read when the callback runs. \<open>failed_unmarshal\<close> is the line
  handed to the logger, without the prefix and the time stamp the logger adds.
\<close>

definition failed_unmarshal :: "string \<Rightarrow> string" where
  "failed_unmarshal topic = ''Failed to unmarshal message on topic '' @ topic @ [CHR 0x0A]"

fun run_callback ::
  "'u env \<Rightarrow> handler \<Rightarrow> 'u state \<Rightarrow> string \<Rightarrow> string \<Rightarrow> 'u state outcome" where
  "run_callback e CallbackAdd s topic payload =
     (case json_Unmarshal e payload of
        Inl err \<Rightarrow> Returns (s\<lparr>logged := logged s @ [failed_unmarshal topic]\<rparr>)
      | Inr mqttMsg \<Rightarrow>
          bind_outcome
            (send_chan (chans s) (updates s)
               \<lparr>Type = DeviceUpdateTypeAdd, ServiceDeviceUpdate = Thing mqttMsg\<rparr>)
            (\<lambda>h. Returns (s\<lparr>chans := h\<rparr>)))"
| "run_callback e CallbackRem s topic payload =
     (case json_Unmarshal e payload of
        Inl err \<Rightarrow> Returns (s\<lparr>logged := logged s @ [failed_unmarshal topic]\<rparr>)
      | Inr mqttMsg \<Rightarrow>
          bind_outcome
            (send_chan (chans s) (updates s)
               \<lparr>Type = DeviceUpdateTypeRem, ServiceDeviceUpdate = Thing mqttMsg\<rparr>)
            (\<lambda>h. Returns (s\<lparr>chans := h\<rparr>)))"
| "run_callback e CallbackUpd s topic payload =
     (case json_Unmarshal e payload of
        Inl err \<Rightarrow> Returns (s\<lparr>logged := logged s @ [failed_unmarshal topic]\<rparr>)
      | Inr mqttMsg \<Rightarrow>
          bind_outcome
            (send_chan (chans s) (updates s)
               \<lparr>Type = DeviceUpdateTypeUpd, ServiceDeviceUpdate = Thing mqttMsg\<rparr>)
            (\<lambda>h. Returns (s\<lparr>chans := h\<rparr>)))"

text \<open>
  The MQTT client delivering a message: the function literal of \<open>Subscribe\<close> calls
  the callback held for the topic with the message's topic and payload. A message
  on a topic without a callback is not delivered to the service. Callbacks run one
  at a time, between the operations of the service.
\<close>

definition deliver :: "'u env \<Rightarrow> 'u state \<Rightarrow> string \<Rightarrow> string \<Rightarrow> 'u state outcome" where
  "deliver e s topic payload =
     (case routes s topic of
        None \<Rightarrow> Returns s
      | Some callback \<Rightarrow> run_callback e callback s topic payload)"

text \<open>The statements \<open>close(s.updates); s.updates = nil\<close>.\<close>

definition close_updates :: "'u state \<Rightarrow> 'u state outcome" where
  "close_updates s =
     bind_outcome (close_chan (chans s) (updates s))
       (\<lambda>h. Returns (s\<lparr>chans := h, updates := None\<rparr>))"

definition topicAdd :: "'u state \<Rightarrow> string" where
  "topicAdd s = Topic (Pubsub (node s)) @ ''/thing/new''"

definition topicRem :: "'u state \<Rightarrow> string" where
  "topicRem s = Topic (Pubsub (node s)) @ ''/thing/remove''"

definition topicUpd :: "'u state \<Rightarrow> string" where
  "topicUpd s = Topic (Pubsub (node s)) @ ''/thing/update''"

text \<open>
  \<open>StartDeviceUpdates\<close> in its three parts, each a call of \<open>Subscribe\<close> that
  assigns \<open>err\<close>, followed by the block run when \<open>err\<close> is not nil. No block
  returns: the next part runs whatever \<open>err\<close> was.
\<close>

definition subscribe_topicAdd :: "'u env \<Rightarrow> 'u state \<Rightarrow> (error option \<times> 'u state) outcome" where
  "subscribe_topicAdd e s =
     (let (err, s1) = Subscribe e s (topicAdd s) CallbackAdd
      in if err \<noteq> None
         then bind_outcome (close_updates s1) (\<lambda>s2. Returns (err, s2))
         else Returns (err, s1))"

definition subscribe_topicRem :: "'u env \<Rightarrow> 'u state \<Rightarrow> (error option \<times> 'u state) outcome" where
  "subscribe_topicRem e s =
     (let (err, s1) = Subscribe e s (topicRem s) CallbackRem
      in if err \<noteq> None
         then
           (let s2 = snd (Unsubscribe e s1 (topicAdd s1))
            in bind_outcome (close_updates s2) (\<lambda>s3. Returns (err, s3)))
         else Returns (err, s1))"

definition subscribe_topicUpd :: "'u env \<Rightarrow> 'u state \<Rightarrow> (error option \<times> 'u state) outcome" where
  "subscribe_topicUpd e s =
     (let (err, s1) = Subscribe e s (topicUpd s) CallbackUpd
      in if err \<noteq> None
         then
           (let s2 = snd (Unsubscribe e s1 (topicAdd s1));
                s3 = snd (Unsubscribe e s2 (topicRem s2))
            in bind_outcome (close_updates s3) (\<lambda>s4. Returns (err, s4)))
         else Returns (err, s1))"

text \<open>
  \<open>StartDeviceUpdates\<close> makes the channel, runs the three parts in order and
  returns the pair \<open>(s.updates, err)\<close>, with \<open>err\<close> as the third part left it.
\<close>

definition StartDeviceUpdates ::
  "'u env \<Rightarrow> 'u state \<Rightarrow> ((chan_ref \<times> error option) \<times> 'u state) outcome" where
  "StartDeviceUpdates e s0 =
     (let s1 = s0\<lparr>chans := chans s0 @ [make_chan deviceUpdatesBuffering],
                  updates := Some (length (chans s0))\<rparr>
      in bind_outcome (subscribe_topicAdd e s1)
           (\<lambda>(err1, s2).
              bind_outcome (subscribe_topicRem e s2)
                (\<lambda>(err2, s3).
                   bind_outcome (subscribe_topicUpd e s3)
                     (\<lambda>(err3, s4). Returns ((updates s4, err3), s4)))))"

definition StopDeviceUpdates :: "'u env \<Rightarrow> 'u state \<Rightarrow> 'u state outcome" where
  "StopDeviceUpdates e s =
     (let s1 = snd (Unsubscribe e s (topicAdd s));
          s2 = snd (Unsubscribe e s1 (topicRem s1));
          s3 = snd (Unsubscribe e s2 (topicUpd s2))
      in bind_outcome (close_chan (chans s3) (updates s3))
           (\<lambda>h. Returns (s3\<lparr>chans := h\<rparr>)))"






section \<open>Package rest: the requests\<close>

record Request =
  Method :: string
  URL :: string
  ReqBody :: "string option"
  Header :: "(string \<times> string) list"
  BasicAuth :: "(string \<times> string) option"

record Response =
  StatusCode :: int
  Status :: string
  Body :: string

text \<open>
  \<open>Host\<close> is declared in a file that is not among the sources; it has the fields
  the functions read. \<open>client\<close> stands for \<open>host.client.Do\<close>: the exchange with
  the server, which gives a response or a transport error.
\<close>

record Host =
  uri :: string
  user :: string
  pass :: string
  client :: "Request \<Rightarrow> error + Response"

text \<open>
  The constants of the package that are declared elsewhere, and the library
  functions: \<open>NewRequest_error\<close> is the error of \<open>http.NewRequest\<close> for a method
  and a URL; each \<open>Decode\<close> is \<open>json.NewDecoder(body).Decode(&v)\<close>, from the body and
  the value \<open>v\<close> holds before to the value it holds after and the error;
  \<open>json_Marshal\<close> is \<open>json.Marshal\<close> of the create request.
\<close>

record rest_env =
  rootAPISubPath :: string
  servicesSubPath :: string
  serviceDevicesSubPath :: string
  httpStatusCodeOK :: int
  NewRequest_error :: "string \<Rightarrow> string \<Rightarrow> error option"
  Decode_ServiceNode :: "string \<Rightarrow> ServiceNode \<Rightarrow> ServiceNode \<times> error option"
  Decode_DeviceList ::
    "string \<Rightarrow> ServiceDeviceListItem list option
       \<Rightarrow> ServiceDeviceListItem list option \<times> error option"
  Decode_hackServiceNode :: "string \<Rightarrow> hackServiceNode \<Rightarrow> hackServiceNode \<times> error option"
  json_Marshal :: "ServiceCreateRequest \<Rightarrow> error + string"

text \<open>
  What a request function does besides returning, in order: lines printed with
  \<open>fmt.Println\<close>, the exchange, the decoding of a body, the deferred close of the body.
\<close>

datatype rest_event = Println string | Do Request | Decode string | BodyClose

definition http_NewRequest ::
  "rest_env \<Rightarrow> string \<Rightarrow> string \<Rightarrow> string option \<Rightarrow> error + Request" where
  "http_NewRequest e method url body =
     (case NewRequest_error e method url of
        Some err \<Rightarrow> Inl err
      | None \<Rightarrow>
          Inr \<lparr>Method = method, URL = url, ReqBody = body, Header = [], BasicAuth = None\<rparr>)"

definition SetBasicAuth :: "Request \<Rightarrow> string \<Rightarrow> string \<Rightarrow> Request" where
  "SetBasicAuth req username password = req\<lparr>BasicAuth := Some (username, password)\<rparr>"



text \<open>
  The first statements of \<open>ServiceCreate\<close>: the request struct, whose optional
  fields are set only from arguments that are not \<open>nil\<close>.
\<close>

definition serviceReq_of ::
  "string \<Rightarrow> string \<Rightarrow> go_map \<Rightarrow> ServiceConfigParameter list option
     \<Rightarrow> ServiceCreateRequest" where
  "serviceReq_of name description properties configParams =
     (let serviceReq0 = \<lparr>req_Name = name, req_Description = description,
                          req_Properties = None, req_ConfigParameters = None\<rparr>;
          serviceReq1 = (if properties \<noteq> None
                         then serviceReq0\<lparr>req_Properties := properties\<rparr> else serviceReq0)
      in if configParams \<noteq> None
         then serviceReq1\<lparr>req_ConfigParameters := configParams\<rparr> else serviceReq1)"

text \<open>
  The last statements of \<open>ServiceCreate\<close>: the seven assignments from the decoded
  \<open>hackServiceNode\<close> to \<open>serviceNode\<close>.
\<close>

definition assign_hackServiceNode :: "hackServiceNode \<Rightarrow> ServiceNode \<Rightarrow> ServiceNode" where
  "assign_hackServiceNode hack serviceNode =
     serviceNode
       \<lparr>Owner := (Owner serviceNode)\<lparr>Id := hack_OwnerID hack\<rparr>,
        Name := hack_Name hack,
        ID := hack_ID hack,
        Pubsub := hack_Pubsub hack,
        Description := hack_Description hack,
        Properties := hack_Properties hack,
        ConfigParameters := hack_ConfigParameters hack\<rparr>"

definition ServiceCreate ::
  "rest_env \<Rightarrow> Host \<Rightarrow> string \<Rightarrow> string \<Rightarrow> go_map \<Rightarrow> ServiceConfigParameter list option
     \<Rightarrow> (ServiceNode \<times> error option) \<times> rest_event list" where
  "ServiceCreate e host name description properties configParams =
     (let serviceNode = zero_ServiceNode;
          requri = uri host @ rootAPISubPath e @ servicesSubPath e;
          serviceReq = serviceReq_of name description properties configParams
      in case json_Marshal e serviceReq of
           Inl err \<Rightarrow> ((serviceNode, Some err), [])
         | Inr body \<Rightarrow>
             (let printed = Println (''Request is: '' @ body)
              in case http_NewRequest e ''POST'' requri (Some body) of
                   Inl err \<Rightarrow> ((serviceNode, Some err), [printed])
                 | Inr req0 \<Rightarrow>
                     (let req1 = req0\<lparr>Header := Header req0 @
                                          [(''Content-Type'', ''application/json'')]\<rparr>;
                          req = SetBasicAuth req1 (user host) (pass host)
                      in case client host req of
                           Inl err \<Rightarrow> ((serviceNode, Some err), [printed, Do req])
                         | Inr resp \<Rightarrow>
                             if StatusCode resp \<noteq> httpStatusCodeOK e
                             then ((serviceNode, Some (Errorf (Status resp))),
                                   [printed, Do req, BodyClose])
                             else
                               (let (hack, err) =
                                      Decode_hackServiceNode e (Body resp) zero_hackServiceNode
                                in ((assign_hackServiceNode hack serviceNode, err),
                                    [printed, Do req, Decode (Body resp), BodyClose])))))"





section \<open>The multiplexer's states\<close>

text \<open>
  The multiplexer is Active on channel \<open>c\<close>: \<open>s.updates\<close> is the open channel
  \<open>c\<close>, and the MQTT client holds the three callbacks for the three topics.
\<close>

definition active :: "'u state \<Rightarrow> nat \<Rightarrow> bool" where
  "active s c \<longleftrightarrow>
     updates s = Some c \<and> c < length (chans s) \<and> \<not> closed (chans s ! c)
     \<and> routes s (topicAdd s) = Some CallbackAdd
     \<and> routes s (topicRem s) = Some CallbackRem
     \<and> routes s (topicUpd s) = Some CallbackUpd"

text \<open>The state \<open>s\<close> after the value \<open>v\<close> has entered the buffer of channel \<open>c\<close>.\<close>

definition enqueued :: "'u state \<Rightarrow> nat \<Rightarrow> 'u DeviceUpdate \<Rightarrow> 'u state" where
  "enqueued s c v = s\<lparr>chans := (chans s)[c := (chans s ! c)\<lparr>buf := buf (chans s ! c) @ [v]\<rparr>]\<rparr>"

text \<open>
  \<open>n\<close> receives in a row on one channel: what each receive yields (\<open>None\<close> for
  closed), and the heap afterwards.
\<close>

fun recv_n :: "'a chan list \<Rightarrow> chan_ref \<Rightarrow> nat \<Rightarrow> ('a option list \<times> 'a chan list) outcome" where
  "recv_n h r 0 = Returns ([], h)"
| "recv_n h r (Suc n) =
     bind_outcome (recv_chan h r)
       (\<lambda>(v, h'). bind_outcome (recv_n h' r n) (\<lambda>(vs, h''). Returns (v # vs, h'')))"

section \<open>Example inputs\<close>

text \<open>
  A service whose root topic is \<open>root\<close>, before \<open>StartDeviceUpdates\<close>, and
  brokers that accept every request, reject the second subscription only, and reject
  the first two subscriptions. The example decoder accepts the payload \<open>{}\<close> only.
\<close>

definition ex_state :: "unit state" where
  "ex_state =
     \<lparr>node = zero_ServiceNode\<lparr>ID := ''svc1'', Pubsub := \<lparr>Topic = ''root''\<rparr>,
                               Properties := Some [''MQTTUser'' \<mapsto> ''alice'']\<rparr>,
      updates = None, mqttQos = 258, chans = [], logged = [],
      routes = Map.empty, calls = []\<rparr>"

definition ex_env :: "unit env" where
  "ex_env =
     \<lparr>subscribe_reply = (\<lambda>cs t. None),
      unsubscribe_reply = (\<lambda>cs t. None),
      publish_reply = (\<lambda>cs t. None),
      json_Unmarshal =
        (\<lambda>p. if p = ''{}'' then Inr \<lparr>Thing = ()\<rparr> else Inl (LibError ''unexpected end''))\<rparr>"

definition ex_env_reject2 :: "unit env" where
  "ex_env_reject2 =
     ex_env\<lparr>subscribe_reply :=
              (\<lambda>cs t. if t = ''root/thing/remove'' then Some (LibError ''rejected'') else None)\<rparr>"




text \<open>A REST server that answers every request with the given response.\<close>

definition ex_rest_env :: rest_env where
  "ex_rest_env =
     \<lparr>rootAPISubPath = ''/api'', servicesSubPath = ''/service'',
      serviceDevicesSubPath = ''/things'', httpStatusCodeOK = 200,
      NewRequest_error = (\<lambda>m u. None),
      Decode_ServiceNode = (\<lambda>b v. (v, Some (LibError ''EOF''))),
      Decode_DeviceList =
        (\<lambda>b v. if b = ''[]'' then (Some [], None) else (v, Some (LibError ''EOF''))),
      Decode_hackServiceNode =
        (\<lambda>b v. if b = ''owner=u1''
               then (v\<lparr>hack_OwnerID := ''u1'', hack_Name := ''n1''\<rparr>, None)
               else (v, Some (LibError ''EOF''))),
      json_Marshal = (\<lambda>r. Inr (req_Name r))\<rparr>"

definition ex_host :: "Response \<Rightarrow> Host" where
  "ex_host resp =
     \<lparr>uri = ''http://h'', user = ''u'', pass = ''p'', client = (\<lambda>req. Inr resp)\<rparr>"


definition ex_post :: Request where
  "ex_post =
     \<lparr>Method = ''POST'', URL = ''http://h/api/service'', ReqBody = Some ''n1'',
      Header = [(''Content-Type'', ''application/json'')], BasicAuth = Some (''u'', ''p'')\<rparr>"


definition ex_ok :: "string \<Rightarrow> Response" where
  "ex_ok body = \<lparr>StatusCode = 200, Status = ''200 OK'', Body = body\<rparr>"

text \<open>
  The example service after a successful \<open>StartDeviceUpdates\<close>, then after one
  update has arrived on \<open>root/thing/new\<close>, then after \<open>StopDeviceUpdates\<close>.
\<close>

definition ex_started :: "unit state" where
  "ex_started =
     ex_state\<lparr>updates := Some 0,
              chans := [\<lparr>buf = [], cap = 10, closed = False\<rparr>],
              routes := [''root/thing/new'' \<mapsto> CallbackAdd,
                         ''root/thing/remove'' \<mapsto> CallbackRem,
                         ''root/thing/update'' \<mapsto> CallbackUpd],
              calls := [CallSubscribe ''root/thing/new'' 2,
                        CallSubscribe ''root/thing/remove'' 2,
                        CallSubscribe ''root/thing/update'' 2]\<rparr>"

definition ex_update :: "unit DeviceUpdate" where
  "ex_update = \<lparr>Type = 0, ServiceDeviceUpdate = ()\<rparr>"

definition ex_pending :: "unit state" where
  "ex_pending = ex_started\<lparr>chans := [\<lparr>buf = [ex_update], cap = 10, closed = False\<rparr>]\<rparr>"

definition ex_stopped :: "unit state" where
  "ex_stopped =
     ex_pending\<lparr>chans := [\<lparr>buf = [ex_update], cap = 10, closed = True\<rparr>],
                routes := Map.empty,
                calls := calls ex_pending @
                  [CallUnsubscribe ''root/thing/new'', CallUnsubscribe ''root/thing/remove'',
                   CallUnsubscribe ''root/thing/update'']\<rparr>"

section \<open>The REST operations\<close>









text \<open>
  Claim C9. When the request of \<open>ServiceCreate\<close> is answered with the OK status,
  the body is decoded into \<open>hackServiceNode\<close>, whose field \<open>owner\<close> is a plain string,
  and the node returned has that string as \<open>Owner.Id\<close> and the decoded name, id,
  pubsub topic, description, properties and config parameters; the error returned
  is the decoder's.
\<close>

theorem ServiceCreate_remaps_owner:
  assumes "ServiceCreate e host name description properties configParams = ((n, err), evs)"
    and "Do req \<in> set evs" and "client host req = Inr resp"
    and "StatusCode resp = httpStatusCodeOK e"
    and "Decode_hackServiceNode e (Body resp) zero_hackServiceNode = (hack, derr)"
  shows "Id (Owner n) = hack_OwnerID hack \<and> Name n = hack_Name hack \<and> ID n = hack_ID hack
       \<and> Pubsub n = hack_Pubsub hack \<and> Description n = hack_Description hack
       \<and> Properties n = hack_Properties hack
       \<and> ConfigParameters n = hack_ConfigParameters hack \<and> err = derr
       \<and> Decode (Body resp) \<in> set evs"
proof -
  from assms have "n = assign_hackServiceNode hack zero_ServiceNode \<and> err = derr
      \<and> Decode (Body resp) \<in> set evs"
    unfolding ServiceCreate_def Let_def
    by (auto split: sum.splits if_splits prod.splits)
  then show ?thesis by (simp add: assign_hackServiceNode_def)
qed

theorem ServiceCreate_remaps_owner_witness:
  "ServiceCreate ex_rest_env (ex_host (ex_ok ''owner=u1'')) ''n1'' ''d'' None None =
     ((zero_ServiceNode\<lparr>Name := ''n1'', Owner := \<lparr>Id = ''u1''\<rparr>\<rparr>, None),
      [Println ''Request is: n1'', Do ex_post, Decode ''owner=u1'', BodyClose])
   \<and> client (ex_host (ex_ok ''owner=u1'')) ex_post = Inr (ex_ok ''owner=u1'')
   \<and> StatusCode (ex_ok ''owner=u1'') = httpStatusCodeOK ex_rest_env
   \<and> Decode_hackServiceNode ex_rest_env (Body (ex_ok ''owner=u1'')) zero_hackServiceNode =
       (zero_hackServiceNode\<lparr>hack_OwnerID := ''u1'', hack_Name := ''n1''\<rparr>, None)
   \<and> Id (Owner (zero_ServiceNode\<lparr>Name := ''n1'', Owner := \<lparr>Id = ''u1''\<rparr>\<rparr>)) = ''u1''"
proof -
  have h1: "ServiceCreate ex_rest_env (ex_host (ex_ok ''owner=u1'')) ''n1'' ''d'' None None =
     ((zero_ServiceNode\<lparr>Name := ''n1'', Owner := \<lparr>Id = ''u1''\<rparr>\<rparr>, None),
      [Println ''Request is: n1'', Do ex_post, Decode ''owner=u1'', BodyClose])"
    by (simp add: ServiceCreate_def serviceReq_of_def assign_hackServiceNode_def
        http_NewRequest_def SetBasicAuth_def ex_rest_env_def ex_host_def ex_ok_def ex_post_def
        zero_ServiceNode_def zero_hackServiceNode_def)
  have h2: "Do ex_post \<in> set [Println ''Request is: n1'', Do ex_post, Decode ''owner=u1'', BodyClose]"
    by simp
  have h3: "client (ex_host (ex_ok ''owner=u1'')) ex_post = Inr (ex_ok ''owner=u1'')"
    by (simp add: ex_host_def)
  have h4: "StatusCode (ex_ok ''owner=u1'') = httpStatusCodeOK ex_rest_env"
    by (simp add: ex_ok_def ex_rest_env_def)
  have h5: "Decode_hackServiceNode ex_rest_env (Body (ex_ok ''owner=u1'')) zero_hackServiceNode =
       (zero_hackServiceNode\<lparr>hack_OwnerID := ''u1'', hack_Name := ''n1''\<rparr>, None)"
    by (simp add: ex_ok_def ex_rest_env_def)
  from ServiceCreate_remaps_owner [OF h1 h2 h3 h4 h5] h1 h3 h4 h5 show ?thesis
    by simp
qed

section \<open>The service\<close>





text \<open>
  Claim C7. Whatever the topic and the payload, the call that \<open>Publish\<close> makes to
  the MQTT client carries the retained flag \<open>False\<close>, the constant \<open>mqttPersistence\<close>.
\<close>

theorem Publish_never_retained:
  "calls (snd (Publish e s topic payload)) =
     calls s @ [CallPublish topic (ucast (mqttQos s)) False payload]"
  by (simp add: Publish_def mqttPersistence_def Let_def)

text \<open>
  Claim C10. \<open>GetProperty\<close> returns a string for every key: the empty string when
  the property map is nil or has no entry for the key, the mapped value otherwise.
\<close>

theorem GetProperty_total:
  "(Properties (node s) = None \<longrightarrow> GetProperty s key = [])
   \<and> (\<forall>m. Properties (node s) = Some m \<and> key \<notin> dom m \<longrightarrow> GetProperty s key = [])
   \<and> (\<forall>m v. Properties (node s) = Some m \<and> m key = Some v \<longrightarrow> GetProperty s key = v)"
  by (auto simp: GetProperty_def split: option.splits)

theorem GetProperty_total_witness:
  "Properties (node ex_state) = Some [''MQTTUser'' \<mapsto> ''alice'']
   \<and> ''MQTTPass'' \<notin> dom [''MQTTUser'' \<mapsto> ''alice'']
   \<and> GetProperty ex_state ''MQTTUser'' = ''alice''
   \<and> GetProperty ex_state ''MQTTPass'' = []"
proof -
  have h: "Properties (node ex_state) = Some [''MQTTUser'' \<mapsto> ''alice'']"
    by (simp add: ex_state_def zero_ServiceNode_def)
  from GetProperty_total [of ex_state "''MQTTUser''"]
       GetProperty_total [of ex_state "''MQTTPass''"] h
  show ?thesis by simp
qed

section \<open>The update multiplexer\<close>

lemmas ex_defs = ex_state_def ex_env_def ex_started_def ex_pending_def ex_stopped_def ex_update_def
  zero_ServiceNode_def
lemmas op_defs = StartDeviceUpdates_def subscribe_topicAdd_def subscribe_topicRem_def
  subscribe_topicUpd_def StopDeviceUpdates_def Subscribe_def Unsubscribe_def
  close_updates_def close_chan_def topicAdd_def topicRem_def topicUpd_def make_chan_def
  deviceUpdatesBuffering_def Let_def

lemma deliver_malformed:
  assumes "routes s topic = Some cb" and "json_Unmarshal e payload = Inl err"
  shows "deliver e s topic payload = Returns (s\<lparr>logged := logged s @ [failed_unmarshal topic]\<rparr>)"
  using assms by (cases cb) (simp_all add: deliver_def)



text \<open>
  A successful \<open>StartDeviceUpdates\<close>, one that returns a channel that is not nil,
  has had all three subscriptions accepted and leaves the multiplexer Active on the
  new, empty channel; a message delivered while Active leaves it Active.
\<close>

lemma Subscribe_facts:
  "fst (Subscribe e s t cb) = subscribe_reply e (calls s) t"
  "chans (snd (Subscribe e s t cb)) = chans s"
  "updates (snd (Subscribe e s t cb)) = updates s"
  "node (snd (Subscribe e s t cb)) = node s"
  "calls (snd (Subscribe e s t cb)) = calls s @ [CallSubscribe t (ucast (mqttQos s))]"
  "routes (snd (Subscribe e s t cb)) =
     (if subscribe_reply e (calls s) t = None then (routes s)(t \<mapsto> cb) else routes s)"
  by (simp_all add: Subscribe_def Let_def)

lemma close_updates_nil:
  "close_updates s = Returns s' \<Longrightarrow> updates s' = None"
  by (auto simp: close_updates_def close_chan_def split: option.splits if_splits)

lemma bind_Returns:
  "bind_outcome m f = Returns y \<longleftrightarrow> (\<exists>x. m = Returns x \<and> f x = Returns y)"
  by (cases m) simp_all

lemma subscribe_topicAdd_open:
  assumes "subscribe_topicAdd e s = Returns (err, s')" and "updates s' = Some c"
  shows "err = None \<and> s' = snd (Subscribe e s (topicAdd s) CallbackAdd)
       \<and> subscribe_reply e (calls s) (topicAdd s) = None"
  using assms
  by (auto simp: subscribe_topicAdd_def Let_def case_prod_beta bind_Returns Subscribe_facts
      split: if_splits dest: close_updates_nil)

lemma subscribe_topicRem_open:
  assumes "subscribe_topicRem e s = Returns (err, s')" and "updates s' = Some c"
  shows "err = None \<and> s' = snd (Subscribe e s (topicRem s) CallbackRem)
       \<and> subscribe_reply e (calls s) (topicRem s) = None"
  using assms
  by (auto simp: subscribe_topicRem_def Let_def case_prod_beta bind_Returns Subscribe_facts
      split: if_splits dest: close_updates_nil)

lemma subscribe_topicUpd_open:
  assumes "subscribe_topicUpd e s = Returns (err, s')" and "updates s' = Some c"
  shows "err = None \<and> s' = snd (Subscribe e s (topicUpd s) CallbackUpd)
       \<and> subscribe_reply e (calls s) (topicUpd s) = None"
  using assms
  by (auto simp: subscribe_topicUpd_def Let_def case_prod_beta bind_Returns Subscribe_facts
      split: if_splits dest: close_updates_nil)

lemma StartDeviceUpdates_active:
  assumes "StartDeviceUpdates e s0 = Returns ((Some c, err), s)"
  shows "active s c \<and> err = None \<and> c = length (chans s0)
       \<and> chans s = chans s0 @ [make_chan deviceUpdatesBuffering]"
proof -
  define s1 where "s1 = s0\<lparr>chans := chans s0 @ [make_chan deviceUpdatesBuffering],
                  updates := Some (length (chans s0))\<rparr>"
  from assms obtain err1 s2 err2 s3 where
    p1: "subscribe_topicAdd e s1 = Returns (err1, s2)"
    and p2: "subscribe_topicRem e s2 = Returns (err2, s3)"
    and p3: "subscribe_topicUpd e s3 = Returns (err, s)"
    and u: "updates s = Some c"
    unfolding StartDeviceUpdates_def s1_def [symmetric] Let_def
    by (auto simp: bind_Returns)
  from subscribe_topicUpd_open [OF p3 u]
  have e3: "err = None" and s: "s = snd (Subscribe e s3 (topicUpd s3) CallbackUpd)"
    and r3: "subscribe_reply e (calls s3) (topicUpd s3) = None"
    by simp_all
  from s u have u3: "updates s3 = Some c" by (simp add: Subscribe_facts)
  from subscribe_topicRem_open [OF p2 u3]
  have s3: "s3 = snd (Subscribe e s2 (topicRem s2) CallbackRem)"
    and r2: "subscribe_reply e (calls s2) (topicRem s2) = None"
    by simp_all
  from s3 u3 have u2: "updates s2 = Some c" by (simp add: Subscribe_facts)
  from subscribe_topicAdd_open [OF p1 u2]
  have s2: "s2 = snd (Subscribe e s1 (topicAdd s1) CallbackAdd)"
    and r1: "subscribe_reply e (calls s1) (topicAdd s1) = None"
    by simp_all
  have n: "node s2 = node s0" "node s3 = node s0" "node s = node s0"
    by (simp_all add: s s3 s2 s1_def Subscribe_facts)
  have t: "topicAdd s = topicAdd s1" "topicRem s = topicRem s2" "topicUpd s = topicUpd s3"
    by (simp_all add: topicAdd_def topicRem_def topicUpd_def n s1_def)
  have d: "topicAdd s1 \<noteq> topicRem s2" "topicAdd s1 \<noteq> topicUpd s3" "topicRem s2 \<noteq> topicUpd s3"
    by (simp_all add: topicAdd_def topicRem_def topicUpd_def n s1_def)
  have c: "c = length (chans s0)"
    using u2 by (simp add: s2 s1_def Subscribe_facts)
  have ch: "chans s = chans s0 @ [make_chan deviceUpdatesBuffering]"
    by (simp add: s s3 s2 s1_def Subscribe_facts)
  have ra: "routes s (topicAdd s1) = Some CallbackAdd"
    using r1 d by (simp add: s s3 s2 Subscribe_facts)
  have rr: "routes s (topicRem s2) = Some CallbackRem"
    using r2 d by (simp add: s s3 Subscribe_facts)
  have ru: "routes s (topicUpd s3) = Some CallbackUpd"
    using r3 by (simp add: s Subscribe_facts)
  have "active s c"
    unfolding active_def t using ra rr ru c ch u
    by (simp add: make_chan_def)
  with e3 c ch show ?thesis by simp
qed

lemma enqueued_active:
  assumes "active s c"
  shows "active (enqueued s c v) c"
  using assms
  by (simp add: active_def enqueued_def topicAdd_def topicRem_def topicUpd_def)

lemma deliver_active:
  assumes "active s c" and "deliver e s topic payload = Returns s'"
  shows "active s' c"
proof (cases "routes s topic")
  case None
  with assms show ?thesis by (simp add: deliver_def)
next
  case (Some cb)
  from assms(1) have u: "updates s = Some c" and c: "c < length (chans s)"
    and o: "\<not> closed (chans s ! c)"
    by (simp_all add: active_def)
  show ?thesis
  proof (cases "json_Unmarshal e payload")
    case (Inl err)
    with Some assms(2) have "s' = s\<lparr>logged := logged s @ [failed_unmarshal topic]\<rparr>"
      by (simp add: deliver_malformed)
    with assms(1) show ?thesis
      by (simp add: active_def topicAdd_def topicRem_def topicUpd_def)
  next
    case (Inr m)
    with Some assms(2) u c o obtain v where "s' = enqueued s c v"
      by (cases cb) (auto simp: deliver_def send_chan_def enqueued_def split: if_splits)
    with assms(1) show ?thesis by (simp add: enqueued_active)
  qed
qed



lemma recv_n_closed:
  assumes "c < length h" and "closed (h ! c)" and "buf (h ! c) = b"
  shows "recv_n h (Some c) (length b + k) =
           Returns (map Some b @ replicate k None, h[c := (h ! c)\<lparr>buf := []\<rparr>])"
  using assms
proof (induction b arbitrary: h)
  case Nil
  have "(h ! c)\<lparr>buf := []\<rparr> = h ! c"
    using Nil.prems(3) by (cases "h ! c") simp
  then have e: "h[c := (h ! c)\<lparr>buf := []\<rparr>] = h"
    by simp
  have "recv_n h (Some c) k = Returns (replicate k None, h)"
    using Nil by (induction k) (simp_all add: recv_chan_def)
  with e show ?case by simp
next
  case (Cons v vs)
  let ?h' = "h[c := (h ! c)\<lparr>buf := vs\<rparr>]"
  have r: "recv_chan h (Some c) = Returns (Some v, ?h')"
    using Cons.prems by (simp add: recv_chan_def)
  have "recv_n ?h' (Some c) (length vs + k) =
          Returns (map Some vs @ replicate k None, ?h'[c := (?h' ! c)\<lparr>buf := []\<rparr>])"
    using Cons.prems by (intro Cons.IH) simp_all
  moreover have "?h'[c := (?h' ! c)\<lparr>buf := []\<rparr>] = h[c := (h ! c)\<lparr>buf := []\<rparr>]"
    using Cons.prems by simp
  ultimately show ?case using r by simp
qed

lemma Unsubscribe_facts:
  "calls (snd (Unsubscribe e s t)) = calls s @ [CallUnsubscribe t]"
  "chans (snd (Unsubscribe e s t)) = chans s"
  "updates (snd (Unsubscribe e s t)) = updates s"
  "node (snd (Unsubscribe e s t)) = node s"
  by (simp_all add: Unsubscribe_def Let_def)

lemma topic_Unsubscribe:
  "topicAdd (snd (Unsubscribe e s t)) = topicAdd s"
  "topicRem (snd (Unsubscribe e s t)) = topicRem s"
  "topicUpd (snd (Unsubscribe e s t)) = topicUpd s"
  by (simp_all add: topicAdd_def topicRem_def topicUpd_def Unsubscribe_facts)

text \<open>
  Claim C8, amended. \<open>StopDeviceUpdates\<close>, called while the multiplexer is Active,
  makes exactly the three unsubscribe calls, one for each topic and whatever the
  broker answers to each, and then closes the queue. Updates still buffered at that
  moment stay receivable: the following receives yield them in order, and the
  receive after the last of them (the first receive, when none was pending) reports
  closed.
\<close>

theorem StopDeviceUpdates_active:
  assumes "active s c"
  shows "\<exists>s'. StopDeviceUpdates e s = Returns s'
           \<and> calls s' = calls s @ [CallUnsubscribe (topicAdd s), CallUnsubscribe (topicRem s),
                                    CallUnsubscribe (topicUpd s)]
           \<and> updates s' = Some c
           \<and> chans s' = (chans s)[c := (chans s ! c)\<lparr>closed := True\<rparr>]
           \<and> recv_n (chans s') (Some c) (length (buf (chans s ! c)) + 1) =
               Returns (map Some (buf (chans s ! c)) @ [None],
                        (chans s')[c := (chans s' ! c)\<lparr>buf := []\<rparr>])"
proof -
  from assms have u: "updates s = Some c" and c: "c < length (chans s)"
    and o: "\<not> closed (chans s ! c)"
    by (simp_all add: active_def)
  define s3 where "s3 = snd (Unsubscribe e (snd (Unsubscribe e (snd (Unsubscribe e s (topicAdd s))) (topicRem s))) (topicUpd s))"
  define h where "h = (chans s)[c := (chans s ! c)\<lparr>closed := True\<rparr>]"
  have s3: "chans s3 = chans s" "updates s3 = Some c"
    "calls s3 = calls s @ [CallUnsubscribe (topicAdd s), CallUnsubscribe (topicRem s),
                                    CallUnsubscribe (topicUpd s)]"
    by (simp_all add: s3_def Unsubscribe_facts u)
  have stop: "StopDeviceUpdates e s = Returns (s3\<lparr>chans := h\<rparr>)"
    using o s3 by (simp add: StopDeviceUpdates_def Let_def topic_Unsubscribe s3_def [symmetric]
        close_chan_def h_def)
  have "recv_n h (Some c) (length (buf (chans s ! c)) + 1) =
          Returns (map Some (buf (chans s ! c)) @ replicate 1 None, h[c := (h ! c)\<lparr>buf := []\<rparr>])"
    using c by (intro recv_n_closed) (simp_all add: h_def)
  with stop s3 show ?thesis by (simp add: h_def)
qed

theorem StopDeviceUpdates_active_witness:
  "active ex_pending 0
   \<and> StopDeviceUpdates ex_env ex_pending = Returns ex_stopped
   \<and> recv_n (chans ex_stopped) (Some 0) (length (buf (chans ex_pending ! 0)) + 1) =
       Returns ([Some ex_update, None], [\<lparr>buf = [], cap = 10, closed = True\<rparr>])"
proof -
  have h: "active ex_pending 0"
    by (simp add: ex_defs active_def topicAdd_def topicRem_def topicUpd_def)
  have s: "StopDeviceUpdates ex_env ex_pending = Returns ex_stopped"
    by (simp add: ex_defs op_defs)
  from StopDeviceUpdates_active [OF h, of ex_env] obtain s' where
    s': "StopDeviceUpdates ex_env ex_pending = Returns s'"
    and r: "recv_n (chans s') (Some 0) (length (buf (chans ex_pending ! 0)) + 1) =
               Returns (map Some (buf (chans ex_pending ! 0)) @ [None],
                        (chans s')[0 := (chans s' ! 0)\<lparr>buf := []\<rparr>])"
    by blast
  from s s' have e: "s' = ex_stopped" by simp
  have b: "map Some (buf (chans ex_pending ! 0)) @ [None] = [Some ex_update, None]"
    "(chans ex_stopped)[0 := (chans ex_stopped ! 0)\<lparr>buf := []\<rparr>] =
       [\<lparr>buf = [], cap = 10, closed = True\<rparr>]"
    by (simp_all add: ex_defs)
  from r e b have "recv_n (chans ex_stopped) (Some 0) (length (buf (chans ex_pending ! 0)) + 1) =
       Returns ([Some ex_update, None], [\<lparr>buf = [], cap = 10, closed = True\<rparr>])"
    by (simp only:)
  with h s show ?thesis by blast
qed

text \<open>
  Claim C8 as stated fails when an update is pending: after a successful start and
  one update delivered on \<open>root/thing/new\<close>, \<open>StopDeviceUpdates\<close> closes the queue
  and the next receive yields that update, not closed.
\<close>

theorem StopDeviceUpdates_receive_counterexample:
  "StartDeviceUpdates ex_env ex_state = Returns ((Some 0, None), ex_started)
   \<and> deliver ex_env ex_started ''root/thing/new'' ''{}'' = Returns ex_pending
   \<and> active ex_pending 0
   \<and> StopDeviceUpdates ex_env ex_pending = Returns ex_stopped
   \<and> recv_chan (chans ex_stopped) (updates ex_stopped) =
       Returns (Some ex_update, [\<lparr>buf = [], cap = 10, closed = True\<rparr>])"
proof -
  have "StartDeviceUpdates ex_env ex_state = Returns ((Some 0, None), ex_started)"
    by (simp add: ex_defs op_defs)
  moreover have "deliver ex_env ex_started ''root/thing/new'' ''{}'' = Returns ex_pending"
    by (simp add: ex_defs deliver_def send_chan_def DeviceUpdateTypeAdd_def)
  moreover have "active ex_pending 0"
    by (simp add: ex_defs active_def topicAdd_def topicRem_def topicUpd_def)
  moreover have "StopDeviceUpdates ex_env ex_pending = Returns ex_stopped"
    by (simp add: ex_defs op_defs)
  moreover have "recv_chan (chans ex_stopped) (updates ex_stopped) =
       Returns (Some ex_update, [\<lparr>buf = [], cap = 10, closed = True\<rparr>])"
    by (simp add: ex_defs recv_chan_def)
  ultimately show ?thesis by simp
qed

text \<open>
  Claim C1, evaluated where the broker rejects the second subscription only: the
  first topic is unsubscribed and the queue is closed, but the third subscription is
  still made and overwrites \<open>err\<close>, so the caller gets a nil channel and a nil error
  while the callback for \<open>root/thing/update\<close> stays registered.
\<close>

theorem StartDeviceUpdates_second_rejected:
  "StartDeviceUpdates ex_env_reject2 ex_state =
     Returns ((None, None),
       ex_state\<lparr>chans := [\<lparr>buf = [], cap = 10, closed = True\<rparr>],
                routes := [''root/thing/update'' \<mapsto> CallbackUpd],
                calls := [CallSubscribe ''root/thing/new'' 2,
                          CallSubscribe ''root/thing/remove'' 2,
                          CallUnsubscribe ''root/thing/new'',
                          CallSubscribe ''root/thing/update'' 2]\<rparr>)"
  by (simp add: ex_env_reject2_def ex_defs op_defs)


end
